theory Spec2Isabelle
  imports Main
begin

section \<open>Data model of ssmeb.go\<close>

text \<open>
  Go strings are byte sequences: \<open>string\<close> (a list of 8-bit characters). A Go \<open>error\<close>
  value is known to the program only through its message (\<open>%v\<close> prints it).
\<close>

datatype error = Error (message: string)

text \<open>\<open>type parameter struct\<close>: one entry of the input file.\<close>

record parameter =
  Name :: string
  Description :: string
  Path :: string
  Value :: string

text \<open>\<open>type parameters struct\<close>: the two ordered lists of the input file.\<close>

record parameters =
  Component :: "parameter list"
  External :: "parameter list"

text \<open>
  \<open>type ebOption struct\<close> and \<open>type ebOptionSettings struct\<close>: the output document.
  The fields \<open>Name\<close> and \<open>Value\<close> of \<open>ebOption\<close> are written \<open>eb_Name\<close> and
  \<open>eb_Value\<close>, since a record field is a constant of its own.
\<close>

record ebOption =
  eb_Name :: string
  eb_Value :: string

record ebOptionSettings =
  Options :: "ebOption list"

text \<open>
  \<open>ssm.PutParameterInput\<close>, with the five fields the program fills in (the pointers of
  the Go struct point to the values at the time of the call).
\<close>

record PutParameterInput =
  put_Name :: string
  put_Description :: string
  put_Value :: string
  put_Overwrite :: bool
  put_Type :: string

section \<open>The outside world\<close>

text \<open>
  What the program does to its environment is recorded, in order, as an event: text
  printed to the two output streams, the values printed with \<open>fmt.Println\<close> in set
  mode (the request and the answer of \<open>PutParameter\<close>, kept as values), the requests
  sent to the parameter store, the reads of a line of standard input and the
  operations on the output file.
\<close>

datatype 'o event =
    Stderr string
  | Stdout string
  | StdoutPutInput PutParameterInput
  | StdoutPutOutput 'o
  | GetParameterCall string
  | PutParameterCall PutParameterInput
  | StdinReadString
  | FileCreate string
  | FileWrite string string
  | FileClose string

text \<open>
  The libraries and services the program calls. The remote store, the file system and
  the credentials live in an outside state of type \<open>'x\<close> that every call may read and
  change; the two functions of the YAML codec are pure. \<open>'o\<close> is the type of
  \<open>ssm.PutParameterOutput\<close>, which the program only prints.

  \<open>GetParameter\<close> takes the \<open>Name\<close> of its \<open>GetParameterInput\<close> (the only field
  the program sets) and answers with an error or with the string that
  \<open>*parOutput.Parameter.Value\<close> reads.
\<close>

record ('x, 'o) sys =
  ReadFile :: "string \<Rightarrow> 'x \<Rightarrow> (error + string) \<times> 'x"
  Unmarshal :: "string \<Rightarrow> parameters \<times> error option"
  Marshal :: "ebOptionSettings \<Rightarrow> error + string"
  NewSession :: "'x \<Rightarrow> error option \<times> 'x"
  GetParameter :: "string \<Rightarrow> 'x \<Rightarrow> (error + string) \<times> 'x"
  PutParameter :: "PutParameterInput \<Rightarrow> 'x \<Rightarrow> (error + 'o) \<times> 'x"
  Create :: "string \<Rightarrow> 'x \<Rightarrow> error option \<times> 'x"
  Write :: "string \<Rightarrow> string \<Rightarrow> 'x \<Rightarrow> (nat \<times> error option) \<times> 'x"
  Close :: "string \<Rightarrow> 'x \<Rightarrow> error option \<times> 'x"

text \<open>
  The state of a run: the outside state, what standard input still holds (the chunks
  that the successive reads of \<open>os.Stdin\<close> will deliver, end of file after the last
  one), and the events so far.
\<close>

record ('x, 'o) world =
  ext :: 'x
  stdin :: "string list"
  trace :: "'o event list"

definition emit :: "'o event \<Rightarrow> ('x, 'o) world \<Rightarrow> ('x, 'o) world" where
  "emit e w = w\<lparr>trace := trace w @ [e]\<rparr>"

text \<open>A call of a library function on the outside state.\<close>

definition call :: "('x \<Rightarrow> 'r \<times> 'x) \<Rightarrow> ('x, 'o) world \<Rightarrow> 'r \<times> ('x, 'o) world" where
  "call f w = (case f (ext w) of (r, x) \<Rightarrow> (r, w\<lparr>ext := x\<rparr>))"

section \<open>getBeanstalkOptions\<close>

text \<open>
  The body of the two \<open>for _, par := range\<close> loops of \<open>getBeanstalkOptions\<close> is the
  same text; \<open>get_loop\<close> is that loop over a list of specs, with the accumulator
  \<open>eb\<close>. On a failed fetch it returns \<open>eb\<close> as it is, with the error.
\<close>

fun get_loop :: "('x, 'o) sys \<Rightarrow> parameter list \<Rightarrow> ebOptionSettings \<Rightarrow> ('x, 'o) world
    \<Rightarrow> (ebOptionSettings \<times> error option) \<times> ('x, 'o) world" where
  "get_loop s [] eb w = ((eb, None), w)"
| "get_loop s (par # rest) eb w =
     (let w1 = emit (Stderr (''* Getting `'' @ Name par @ ''` from path `'' @ Path par @ ''`... '')) w in
      case call (GetParameter s (Path par)) (emit (GetParameterCall (Path par)) w1) of
        (Inl err, w2) \<Rightarrow> ((eb, Some err), w2)
      | (Inr v, w2) \<Rightarrow>
          get_loop s rest
            (eb\<lparr>Options := Options eb @ [\<lparr>eb_Name = Name par, eb_Value = v\<rparr>]\<rparr>)
            (emit (Stderr ''OK\<newline>'') w2))"

definition getBeanstalkOptions :: "('x, 'o) sys \<Rightarrow> parameters \<Rightarrow> ('x, 'o) world
    \<Rightarrow> (ebOptionSettings \<times> error option) \<times> ('x, 'o) world" where
  "getBeanstalkOptions s ps w =
     (case get_loop s (Component ps) \<lparr>Options = []\<rparr> w of
        ((eb, Some err), w1) \<Rightarrow> ((eb, Some err), w1)
      | ((eb, None), w1) \<Rightarrow> get_loop s (External ps) eb w1)"

section \<open>readParametersFile\<close>

text \<open>
  \<open>for i, par := range xs { xs[i].Path = "/" + environment + par.Path }\<close>: the indices
  run over the length the slice has when the loop starts, \<open>par\<close> is the element at
  index \<open>i\<close> when the iteration starts, and only the element at \<open>i\<close> is written.
\<close>

definition prefix_paths :: "string \<Rightarrow> parameter list \<Rightarrow> parameter list" where
  "prefix_paths environment xs =
     fold (\<lambda>i ys. ys[i := (ys ! i)\<lparr>Path := ''/'' @ environment @ Path (ys ! i)\<rparr>])
       [0..<length xs] xs"

text \<open>The zero value of \<open>parameters\<close>, returned when the file cannot be read.\<close>

definition zero_parameters :: parameters where
  "zero_parameters = \<lparr>Component = [], External = []\<rparr>"

definition readParametersFile :: "('x, 'o) sys \<Rightarrow> string \<Rightarrow> string \<Rightarrow> ('x, 'o) world
    \<Rightarrow> (parameters \<times> error option) \<times> ('x, 'o) world" where
  "readParametersFile s filename environment w =
     (case call (ReadFile s filename) w of
        (Inl err, w1) \<Rightarrow> ((zero_parameters, Some err), w1)
      | (Inr inputFile, w1) \<Rightarrow>
          (case Unmarshal s inputFile of
             (ps, Some err) \<Rightarrow> ((ps, Some err), w1)
           | (ps, None) \<Rightarrow>
               ((if environment \<noteq> []
                 then ps\<lparr>Component := prefix_paths environment (Component ps),
                         External := prefix_paths environment (External ps)\<rparr>
                 else ps, None), w1)))"

section \<open>setBeanstalkOptions\<close>

text \<open>
  \<open>bufio.NewReader(os.Stdin)\<close> followed by \<open>reader.ReadString('\n')\<close>: the fresh
  reader fills its buffer with the chunks that standard input delivers until the
  buffer holds a newline, and returns the text up to and including the first newline.
  What the buffer holds after that newline is lost with the reader, which the program
  creates anew for every parameter. When standard input ends before a newline, the
  text read so far comes back with the error \<open>io.EOF\<close>, the only read error that
  standard input has here.
\<close>

abbreviation newline :: char where
  "newline \<equiv> CHR 0x0A"

definition EOF :: error where
  "EOF = Error ''EOF''"

fun ReadString :: "string \<Rightarrow> string list \<Rightarrow> (string \<times> error option) \<times> string list" where
  "ReadString buf [] = ((buf, Some EOF), [])"
| "ReadString buf (chunk # chunks) =
     (if newline \<in> set (buf @ chunk)
      then ((takeWhile (\<lambda>c. c \<noteq> newline) (buf @ chunk) @ [newline], None), chunks)
      else ReadString (buf @ chunk) chunks)"

text \<open>\<open>strings.Replace(text, "\n", "", -1)\<close>: every newline of \<open>text\<close> is removed.\<close>

definition Replace_newline :: "string \<Rightarrow> string" where
  "Replace_newline text = filter (\<lambda>c. c \<noteq> newline) text"

text \<open>
  Lines 182 to 194: the value to store for \<open>par\<close>, from the file or from standard
  input.
\<close>

definition input_value :: "parameter \<Rightarrow> ('x, 'o) world \<Rightarrow> (error + string) \<times> ('x, 'o) world" where
  "input_value par w =
     (if Value par = []
      then
        (let w1 = emit (Stdout (''* Input value for `'' @ Path par @ ''`: '')) w in
         case ReadString [] (stdin w1) of
           ((text, Some err), chunks) \<Rightarrow> (Inl err, emit StdinReadString (w1\<lparr>stdin := chunks\<rparr>))
         | ((text, None), chunks) \<Rightarrow>
             (Inr (Replace_newline text), emit StdinReadString (w1\<lparr>stdin := chunks\<rparr>)))
      else (Inr (Value par), emit (Stdout (''* Setting value for `'' @ Path par @ ''`...\<newline>'')) w))"

text \<open>The loop of \<open>setBeanstalkOptions\<close> over \<open>parameters.Component\<close>.\<close>

fun set_loop :: "('x, 'o) sys \<Rightarrow> parameter list \<Rightarrow> ('x, 'o) world
    \<Rightarrow> error option \<times> ('x, 'o) world" where
  "set_loop s [] w = (None, w)"
| "set_loop s (par # rest) w =
     (case input_value par w of
        (Inl err, w1) \<Rightarrow> (Some err, w1)
      | (Inr v, w1) \<Rightarrow>
          (let ssmPar = \<lparr>put_Name = Path par, put_Description = Description par,
                         put_Value = v, put_Overwrite = True, put_Type = ''String''\<rparr> in
           case call (PutParameter s ssmPar)
                  (emit (PutParameterCall ssmPar) (emit (StdoutPutInput ssmPar) w1)) of
             (Inl err, w2) \<Rightarrow> (Some err, w2)
           | (Inr putOutput, w2) \<Rightarrow> set_loop s rest (emit (StdoutPutOutput putOutput) w2)))"

definition setBeanstalkOptions :: "('x, 'o) sys \<Rightarrow> parameters \<Rightarrow> ('x, 'o) world
    \<Rightarrow> error option \<times> ('x, 'o) world" where
  "setBeanstalkOptions s ps w = set_loop s (Component ps) w"

section \<open>writeToFile\<close>

text \<open>\<open>%d\<close> of a byte count.\<close>

fun decimal :: "nat \<Rightarrow> string" where
  "decimal n =
     (if n < 10 then [char_of (48 + n)]
      else decimal (n div 10) @ [char_of (48 + n mod 10)])"

definition writeToFile :: "('x, 'o) sys \<Rightarrow> string \<Rightarrow> string \<Rightarrow> ('x, 'o) world
    \<Rightarrow> error option \<times> ('x, 'o) world" where
  "writeToFile s output data w =
     (case call (Create s output) (emit (FileCreate output) w) of
        (Some err, w1) \<Rightarrow> (Some err, w1)
      | (None, w1) \<Rightarrow>
          (case call (Write s output data) (emit (FileWrite output data) w1) of
             ((bytesOut, Some err), w2) \<Rightarrow> (Some err, w2)
           | ((bytesOut, None), w2) \<Rightarrow>
               call (Close s output)
                 (emit (FileClose output)
                   (emit (Stderr (decimal bytesOut @ '' bytes written successfully to `''
                                   @ output @ ''`\<newline>'')) w2))))"

section \<open>main\<close>

text \<open>
  The four variables that the flags are bound to, with the defaults given at their
  registration. The command line is taken as the flag package splits it: the list of
  (flag name, value) pairs in the order given. \<open>flag.Parse\<close> assigns each value to the
  variable its flag is bound to and, with the \<open>ExitOnError\<close> policy of the default
  flag set, ends the process at a name that is not registered.
\<close>

record flags =
  flag_input :: string
  flag_output :: string
  flag_environment :: string
  flag_mode :: string

definition default_flags :: flags where
  "default_flags = \<lparr>flag_input = [], flag_output = [], flag_environment = [], flag_mode = ''get''\<rparr>"

fun flag_Parse :: "(string \<times> string) list \<Rightarrow> flags \<Rightarrow> flags option" where
  "flag_Parse [] f = Some f"
| "flag_Parse ((name, v) # args) f =
     (if name = ''input'' \<or> name = ''i'' then flag_Parse args (f\<lparr>flag_input := v\<rparr>)
      else if name = ''output'' \<or> name = ''o'' then flag_Parse args (f\<lparr>flag_output := v\<rparr>)
      else if name = ''environment'' \<or> name = ''e'' then flag_Parse args (f\<lparr>flag_environment := v\<rparr>)
      else if name = ''mode'' \<or> name = ''m'' then flag_Parse args (f\<lparr>flag_mode := v\<rparr>)
      else None)"

text \<open>
  How a run ends: \<open>main\<close> returns, \<open>log.Fatal\<close> prints its message and exits with
  status 1, \<open>session.Must\<close> panics, or \<open>flag.Parse\<close> exits.
\<close>

datatype outcome = Done | Fatal string | Panic error | FlagError

text \<open>Lines 92 to 108, the branch of \<open>mode == "get"\<close>.\<close>

definition get_mode :: "('x, 'o) sys \<Rightarrow> string \<Rightarrow> parameters \<Rightarrow> ('x, 'o) world
    \<Rightarrow> outcome \<times> ('x, 'o) world" where
  "get_mode s output ps w =
     (case getBeanstalkOptions s ps w of
        ((ebOptions, Some err), w1) \<Rightarrow> (Fatal (''Error getting values: '' @ message err), w1)
      | ((ebOptions, None), w1) \<Rightarrow>
          (case Marshal s ebOptions of
             Inl err \<Rightarrow> (Fatal (''Error marshaling beanstalk options: '' @ message err), w1)
           | Inr ebYaml \<Rightarrow>
               (if output = [] then (Done, emit (Stdout (ebYaml @ ''\<newline>'')) w1)
                else
                  (case writeToFile s output ebYaml w1 of
                     (Some err, w2) \<Rightarrow> (Fatal (''Error writing to file `'' @ output @ ''`''), w2)
                   | (None, w2) \<Rightarrow> (Done, w2)))))"

text \<open>Lines 110 to 113, the branch of \<open>mode == "set"\<close>.\<close>

definition set_mode :: "('x, 'o) sys \<Rightarrow> parameters \<Rightarrow> ('x, 'o) world
    \<Rightarrow> outcome \<times> ('x, 'o) world" where
  "set_mode s ps w =
     (case setBeanstalkOptions s ps w of
        (Some err, w1) \<Rightarrow> (Fatal (''Error setting values: '' @ message err), w1)
      | (None, w1) \<Rightarrow> (Done, w1))"

text \<open>Lines 72 to 77: \<open>fmt.Fprintln\<close> separates its operands by a space.\<close>

definition banner :: "flags \<Rightarrow> ('x, 'o) world \<Rightarrow> ('x, 'o) world" where
  "banner f w =
     fold emit
       [Stderr ''-----------------------------------------\<newline>'',
        Stderr (''input:       '' @ '' '' @ flag_input f @ ''\<newline>''),
        Stderr (''output:      '' @ '' '' @ flag_output f @ ''\<newline>''),
        Stderr (''environment: '' @ '' '' @ flag_environment f @ ''\<newline>''),
        Stderr (''mode:        '' @ '' '' @ flag_mode f @ ''\<newline>''),
        Stderr ''-----------------------------------------\<newline>''] w"

definition main :: "('x, 'o) sys \<Rightarrow> (string \<times> string) list \<Rightarrow> ('x, 'o) world
    \<Rightarrow> outcome \<times> ('x, 'o) world" where
  "main s args w =
     (case flag_Parse args default_flags of
        None \<Rightarrow> (FlagError, w)
      | Some f \<Rightarrow>
          (let w1 = banner f w in
           if flag_input f = [] then (Fatal ''Missing mandatory argument: `input`'', w1)
           else
             (case readParametersFile s (flag_input f) (flag_environment f) w1 of
                ((ps, Some err), w2) \<Rightarrow>
                  (Fatal (''Error reading file `'' @ flag_input f @ ''`: '' @ message err), w2)
              | ((ps, None), w2) \<Rightarrow>
                  (case call (NewSession s) w2 of
                     (Some err, w3) \<Rightarrow> (Panic err, w3)
                   | (None, w3) \<Rightarrow>
                       (if flag_mode f = ''get'' then get_mode s (flag_output f) ps w3
                        else if flag_mode f = ''set'' then set_mode s ps w3
                        else (Fatal (''Invalid mode: '' @ flag_mode f), w3))))))"

section \<open>Reading a run\<close>

text \<open>
  The answers of the parameter store to a sequence of fetches, one path after the
  other from the outside state \<open>x\<close>, and the outside state after the last of them.
\<close>

fun fetch_seq :: "('x, 'o) sys \<Rightarrow> string list \<Rightarrow> 'x \<Rightarrow> (error + string) list \<times> 'x" where
  "fetch_seq s [] x = ([], x)"
| "fetch_seq s (path # paths) x =
     (case GetParameter s path x of
        (r, x1) \<Rightarrow> (case fetch_seq s paths x1 of (rs, x2) \<Rightarrow> (r # rs, x2)))"

text \<open>The option that \<open>getBeanstalkOptions\<close> appends for a spec and its fetched value.\<close>

definition option_of :: "parameter \<Rightarrow> string \<Rightarrow> ebOption" where
  "option_of par v = \<lparr>eb_Name = Name par, eb_Value = v\<rparr>"

text \<open>
  The request that \<open>setBeanstalkOptions\<close> builds (lines 196 to 204) for a spec and the
  value \<open>v\<close> to store.
\<close>

definition request :: "parameter \<Rightarrow> string \<Rightarrow> PutParameterInput" where
  "request par v = \<lparr>put_Name = Path par, put_Description = Description par,
                    put_Value = v, put_Overwrite = True, put_Type = ''String''\<rparr>"

text \<open>The paths fetched and the requests stored, in the order of the calls.\<close>

fun get_call :: "'o event \<Rightarrow> string list" where
  "get_call (GetParameterCall path) = [path]"
| "get_call _ = []"

definition get_calls :: "'o event list \<Rightarrow> string list" where
  "get_calls es = concat (map get_call es)"

fun put_call :: "'o event \<Rightarrow> PutParameterInput list" where
  "put_call (PutParameterCall i) = [i]"
| "put_call _ = []"

definition put_calls :: "'o event list \<Rightarrow> PutParameterInput list" where
  "put_calls es = concat (map put_call es)"

text \<open>
  The events that put out a document: text on standard output and the operations on
  the output file.
\<close>

fun is_output :: "'o event \<Rightarrow> bool" where
  "is_output (Stdout text) = True"
| "is_output (FileCreate name) = True"
| "is_output (FileWrite name data) = True"
| "is_output (FileClose name) = True"
| "is_output _ = False"

text \<open>
  An in-memory parameter store for running the program on concrete inputs: the outside
  state is the list of (path, value) pairs stored, and the files are those of
  \<open>fake_files\<close>.
\<close>

definition fake_files :: "(string \<times> string) list" where
  "fake_files = [(''template.yaml'', ''doc'')]"

definition fake_parameters :: parameters where
  "fake_parameters =
     \<lparr>Component = [\<lparr>Name = ''DB_HOST'', Description = ''host'', Path = ''/db/host'', Value = ''abc''\<rparr>,
                   \<lparr>Name = ''DB_USER'', Description = ''user'', Path = ''/db/user'', Value = []\<rparr>],
      External = [\<lparr>Name = ''API_KEY'', Description = [], Path = ''/api/key'', Value = []\<rparr>]\<rparr>"

definition fake_sys :: "((string \<times> string) list, nat) sys" where
  "fake_sys =
     \<lparr>ReadFile = (\<lambda>name x. (case map_of fake_files name of
                                None \<Rightarrow> Inl (Error ''no such file'') | Some d \<Rightarrow> Inr d, x)),
      Unmarshal = (\<lambda>d. if d = ''doc'' then (fake_parameters, None)
                        else (zero_parameters, Some (Error ''yaml: unmarshal error''))),
      Marshal = (\<lambda>eb. Inr (concat (map (\<lambda>opt. eb_Name opt @ ''='' @ eb_Value opt @ '';'') (Options eb)))),
      NewSession = (\<lambda>x. (None, x)),
      GetParameter = (\<lambda>path x. (case map_of x path of
                                    None \<Rightarrow> Inl (Error ''ParameterNotFound'') | Some v \<Rightarrow> Inr v, x)),
      PutParameter = (\<lambda>i x. (Inr (Suc (length (filter (\<lambda>kv. fst kv = put_Name i) x))),
                              (put_Name i, put_Value i) # x)),
      Create = (\<lambda>name x. (None, x)),
      Write = (\<lambda>name data x. ((length data, None), x)),
      Close = (\<lambda>name x. (None, x))\<rparr>"

definition fake_world :: "(string \<times> string) list \<Rightarrow> string list \<Rightarrow> ((string \<times> string) list, nat) world" where
  "fake_world x chunks = \<lparr>ext = x, stdin = chunks, trace = []\<rparr>"

section \<open>Events and calls\<close>

lemma trace_emit [simp]: "trace (emit e w) = trace w @ [e]"
  and ext_emit [simp]: "ext (emit e w) = ext w"
  and stdin_emit [simp]: "stdin (emit e w) = stdin w"
  by (simp_all add: emit_def)

lemma call_result:
  assumes "call f w = (r, w1)"
  shows "f (ext w) = (r, ext w1)" and "trace w1 = trace w" and "stdin w1 = stdin w"
  using assms by (auto simp: call_def split: prod.splits)

lemma get_calls_append [simp]: "get_calls (es @ fs) = get_calls es @ get_calls fs"
  by (simp add: get_calls_def)

lemma put_calls_append [simp]: "put_calls (es @ fs) = put_calls es @ put_calls fs"
  by (simp add: put_calls_def)

lemmas fake_defs = fake_sys_def fake_parameters_def fake_world_def fake_files_def zero_parameters_def

lemmas run_defs = setBeanstalkOptions_def input_value_def Replace_newline_def call_def emit_def
  Let_def put_calls_def get_calls_def request_def

section \<open>Get mode\<close>

text \<open>
  The two loops of \<open>getBeanstalkOptions\<close> are one loop over the component list
  followed by the external list.
\<close>

lemma get_loop_append:
  "get_loop s (xs @ ys) eb w =
     (case get_loop s xs eb w of
        ((eb1, Some err), w1) \<Rightarrow> ((eb1, Some err), w1)
      | ((eb1, None), w1) \<Rightarrow> get_loop s ys eb1 w1)"
  by (induction xs arbitrary: eb w) (auto split: prod.splits sum.splits option.splits simp: Let_def)

lemma getBeanstalkOptions_concat:
  "getBeanstalkOptions s ps w = get_loop s (Component ps @ External ps) \<lparr>Options = []\<rparr> w"
  by (simp add: getBeanstalkOptions_def get_loop_append)

lemma fetch_seq_length: "fetch_seq s paths x = (rs, x1) \<Longrightarrow> length rs = length paths"
  by (induction paths arbitrary: x rs) (auto split: prod.splits)

text \<open>A store whose fetch succeeds on every path, in every state, answers every sequence.\<close>

lemma fetch_seq_succeeds:
  assumes "\<And>path x. \<exists>v x1. GetParameter s path x = (Inr v, x1)"
  shows "\<exists>vs x1. fetch_seq s paths x = (map Inr vs, x1)"
proof (induction paths arbitrary: x)
  case Nil
  show ?case by simp
next
  case (Cons path paths)
  from assms obtain v x1 where g: "GetParameter s path x = (Inr v, x1)"
    by blast
  from Cons.IH obtain vs x2 where "fetch_seq s paths x1 = (map Inr vs, x2)"
    by blast
  with g have "fetch_seq s (path # paths) x = (map Inr (v # vs), x2)"
    by simp
  then show ?case by blast
qed

text \<open>
  When the fetches of the paths of \<open>xs\<close>, in order, all succeed with the values
  \<open>vs\<close>, the loop appends one option per spec, fetches exactly these paths, and
  puts nothing out.
\<close>

lemma get_loop_fetched:
  assumes "fetch_seq s (map Path xs) (ext w) = (map Inr vs, x)"
  shows "\<exists>w1. get_loop s xs eb w = ((eb\<lparr>Options := Options eb @ map2 option_of xs vs\<rparr>, None), w1)
           \<and> ext w1 = x \<and> stdin w1 = stdin w
           \<and> get_calls (trace w1) = get_calls (trace w) @ map Path xs
           \<and> put_calls (trace w1) = put_calls (trace w)
           \<and> filter is_output (trace w1) = filter is_output (trace w)"
  using assms
proof (induction xs arbitrary: eb w vs)
  case Nil
  then show ?case by (simp add: get_calls_def)
next
  case (Cons par rest)
  obtain r x1 where g: "GetParameter s (Path par) (ext w) = (r, x1)"
    by (cases "GetParameter s (Path par) (ext w)")
  obtain rs x2 where f: "fetch_seq s (map Path rest) x1 = (rs, x2)"
    by (cases "fetch_seq s (map Path rest) x1")
  from Cons.prems g f have eq: "r # rs = map Inr vs" and x: "x2 = x"
    by simp_all
  then obtain v vs1 where vs: "vs = v # vs1" and r: "r = Inr v" and rs: "rs = map Inr vs1"
    by (cases vs) auto
  let ?w = "emit (Stderr ''OK\<newline>'')
      ((emit (GetParameterCall (Path par))
         (emit (Stderr (''* Getting `'' @ Name par @ ''` from path `'' @ Path par @ ''`... '')) w))\<lparr>ext := x1\<rparr>)"
  let ?eb = "eb\<lparr>Options := Options eb @ [\<lparr>eb_Name = Name par, eb_Value = v\<rparr>]\<rparr>"
  have step: "get_loop s (par # rest) eb w = get_loop s rest ?eb ?w"
    using g r by (simp add: call_def Let_def)
  have "fetch_seq s (map Path rest) (ext ?w) = (map Inr vs1, x)"
    using f rs x by simp
  from Cons.IH [OF this, of ?eb] obtain w1 where
    ih: "get_loop s rest ?eb ?w = ((?eb\<lparr>Options := Options ?eb @ map2 option_of rest vs1\<rparr>, None), w1)"
      "ext w1 = x" "stdin w1 = stdin ?w" "get_calls (trace w1) = get_calls (trace ?w) @ map Path rest"
      "put_calls (trace w1) = put_calls (trace ?w)"
      "filter is_output (trace w1) = filter is_output (trace ?w)"
    by blast
  show ?case
    using ih step vs by (simp add: option_of_def get_calls_def put_calls_def)
qed

text \<open>
  When the fetches succeed for the specs of \<open>pre\<close> and the next one fails, the loop
  stops there: it returns the error with the options of \<open>pre\<close>, and no path of
  \<open>post\<close> is fetched.
\<close>

lemma get_loop_failed:
  assumes "fetch_seq s (map Path pre) (ext w) = (map Inr vs, x1)"
    and "GetParameter s (Path par) x1 = (Inl err, x2)"
  shows "\<exists>w1. get_loop s (pre @ par # post) eb w =
             ((eb\<lparr>Options := Options eb @ map2 option_of pre vs\<rparr>, Some err), w1)
           \<and> ext w1 = x2 \<and> stdin w1 = stdin w
           \<and> get_calls (trace w1) = get_calls (trace w) @ map Path pre @ [Path par]
           \<and> put_calls (trace w1) = put_calls (trace w)
           \<and> filter is_output (trace w1) = filter is_output (trace w)"
proof -
  from get_loop_fetched [OF assms(1), of eb] obtain w0 where
    pre: "get_loop s pre eb w = ((eb\<lparr>Options := Options eb @ map2 option_of pre vs\<rparr>, None), w0)"
      "ext w0 = x1" "stdin w0 = stdin w" "get_calls (trace w0) = get_calls (trace w) @ map Path pre"
      "put_calls (trace w0) = put_calls (trace w)"
      "filter is_output (trace w0) = filter is_output (trace w)"
    by blast
  show ?thesis
    using pre assms(2)
    by (simp add: get_loop_append call_def Let_def get_calls_def put_calls_def)
qed

lemma get_loop_failed_at:
  assumes "k < length xs"
    and "fetch_seq s (map Path (take k xs)) (ext w) = (map Inr vs, x1)"
    and "GetParameter s (Path (xs ! k)) x1 = (Inl err, x2)"
  shows "\<exists>w1. get_loop s xs eb w = ((eb\<lparr>Options := Options eb @ map2 option_of (take k xs) vs\<rparr>, Some err), w1)
           \<and> ext w1 = x2
           \<and> get_calls (trace w1) = get_calls (trace w) @ map Path (take (Suc k) xs)
           \<and> filter is_output (trace w1) = filter is_output (trace w)"
proof -
  from assms(1) have xs: "xs = take k xs @ xs ! k # drop (Suc k) xs"
    by (rule id_take_nth_drop)
  from get_loop_failed [OF assms(2,3), of "drop (Suc k) xs" eb] obtain w1 where
    "get_loop s (take k xs @ xs ! k # drop (Suc k) xs) eb w =
       ((eb\<lparr>Options := Options eb @ map2 option_of (take k xs) vs\<rparr>, Some err), w1)"
    "ext w1 = x2"
    "get_calls (trace w1) = get_calls (trace w) @ map Path (take k xs) @ [Path (xs ! k)]"
    "filter is_output (trace w1) = filter is_output (trace w)"
    by blast
  with xs assms(1) show ?thesis
    by (simp add: take_Suc_conv_app_nth)
qed

text \<open>
  C1. In get mode, when the fetches of the paths of the component list followed by the
  external list all succeed, with the values \<open>vs\<close> in the order of the calls,
  \<open>getBeanstalkOptions\<close> returns no error and an option list of length
  \<open>len(component) + len(external)\<close> whose \<open>i\<close>-th entry has the name of the
  \<open>i\<close>-th spec of the concatenation and the value fetched for it.
\<close>

theorem getBeanstalkOptions_length_order:
  assumes "fetch_seq s (map Path (Component ps @ External ps)) (ext w) = (map Inr vs, x)"
  shows "\<exists>eb w1. getBeanstalkOptions s ps w = ((eb, None), w1)
           \<and> length (Options eb) = length (Component ps) + length (External ps)
           \<and> (\<forall>i<length (Options eb).
                 Options eb ! i = \<lparr>eb_Name = Name ((Component ps @ External ps) ! i),
                                     eb_Value = vs ! i\<rparr>)"
proof -
  let ?xs = "Component ps @ External ps"
  from fetch_seq_length [OF assms] have len: "length vs = length ?xs"
    by simp
  from get_loop_fetched [OF assms, of "\<lparr>Options = []\<rparr>"] obtain w1 where
    "get_loop s ?xs \<lparr>Options = []\<rparr> w = ((\<lparr>Options = map2 option_of ?xs vs\<rparr>, None), w1)"
    by auto
  then have "getBeanstalkOptions s ps w = ((\<lparr>Options = map2 option_of ?xs vs\<rparr>, None), w1)"
    by (simp add: getBeanstalkOptions_concat)
  moreover have "length (map2 option_of ?xs vs) = length (Component ps) + length (External ps)"
    using len by simp
  moreover have "\<forall>i<length (map2 option_of ?xs vs).
      map2 option_of ?xs vs ! i = \<lparr>eb_Name = Name (?xs ! i), eb_Value = vs ! i\<rparr>"
    by (simp add: option_of_def)
  ultimately show ?thesis
    by (intro exI [of _ "\<lparr>Options = map2 option_of ?xs vs\<rparr>"] exI [of _ w1]) simp
qed

theorem getBeanstalkOptions_length_order_witness:
  "fetch_seq fake_sys (map Path (Component fake_parameters @ External fake_parameters))
     (ext (fake_world [(''/db/host'', ''localhost''), (''/db/user'', ''u''), (''/api/key'', ''k'')] []))
     = (map Inr [''localhost'', ''u'', ''k''],
        [(''/db/host'', ''localhost''), (''/db/user'', ''u''), (''/api/key'', ''k'')])
   \<and> (\<exists>eb w1. getBeanstalkOptions fake_sys fake_parameters
          (fake_world [(''/db/host'', ''localhost''), (''/db/user'', ''u''), (''/api/key'', ''k'')] [])
          = ((eb, None), w1)
        \<and> length (Options eb) = 3
        \<and> Options eb ! 2 = \<lparr>eb_Name = ''API_KEY'', eb_Value = ''k''\<rparr>)"
proof -
  let ?W = "fake_world [(''/db/host'', ''localhost''), (''/db/user'', ''u''), (''/api/key'', ''k'')] []"
  have h: "fetch_seq fake_sys (map Path (Component fake_parameters @ External fake_parameters)) (ext ?W)
     = (map Inr [''localhost'', ''u'', ''k''],
        [(''/db/host'', ''localhost''), (''/db/user'', ''u''), (''/api/key'', ''k'')])"
    by (simp add: fake_defs)
  from getBeanstalkOptions_length_order [OF h] obtain eb w1 where
    r: "getBeanstalkOptions fake_sys fake_parameters ?W = ((eb, None), w1)"
      "length (Options eb) = length (Component fake_parameters) + length (External fake_parameters)"
      "\<forall>i<length (Options eb). Options eb ! i =
         \<lparr>eb_Name = Name ((Component fake_parameters @ External fake_parameters) ! i),
          eb_Value = [''localhost'', ''u'', ''k''] ! i\<rparr>"
    by blast
  from r(2) have len: "length (Options eb) = 3"
    by (simp add: fake_parameters_def)
  with r(3) have "Options eb ! 2 = \<lparr>eb_Name = ''API_KEY'', eb_Value = ''k''\<rparr>"
    by (simp add: fake_parameters_def)
  with h r(1) len show ?thesis by blast
qed

text \<open>
  C3. In get mode, when the fetches succeed for the first \<open>k\<close> specs of the
  concatenation and fail for the next one, the run ends with the fatal error of
  \<open>getBeanstalkOptions\<close>: the paths fetched are those of the specs up to the failing
  one and no other, the outside state is the one the failing fetch left, and nothing
  is printed to standard output or written to the output file.
\<close>

theorem get_mode_fetch_failure:
  assumes "k < length (Component ps @ External ps)"
    and "fetch_seq s (map Path (take k (Component ps @ External ps))) (ext w) = (map Inr vs, x1)"
    and "GetParameter s (Path ((Component ps @ External ps) ! k)) x1 = (Inl err, x2)"
  shows "\<exists>w1. get_mode s output ps w = (Fatal (''Error getting values: '' @ message err), w1)
           \<and> get_calls (trace w1) = get_calls (trace w) @ map Path (take (Suc k) (Component ps @ External ps))
           \<and> ext w1 = x2
           \<and> filter is_output (trace w1) = filter is_output (trace w)"
proof -
  from get_loop_failed_at [OF assms, of "\<lparr>Options = []\<rparr>"] obtain eb w1 where
    "getBeanstalkOptions s ps w = ((eb, Some err), w1)"
    "ext w1 = x2"
    "get_calls (trace w1) = get_calls (trace w) @ map Path (take (Suc k) (Component ps @ External ps))"
    "filter is_output (trace w1) = filter is_output (trace w)"
    unfolding getBeanstalkOptions_concat by blast
  then show ?thesis
    by (simp add: get_mode_def)
qed

theorem get_mode_fetch_failure_witness:
  "1 < length (Component fake_parameters @ External fake_parameters)
   \<and> fetch_seq fake_sys (map Path (take 1 (Component fake_parameters @ External fake_parameters)))
       (ext (fake_world [(''/db/host'', ''localhost''), (''/api/key'', ''k'')] []))
       = (map Inr [''localhost''], [(''/db/host'', ''localhost''), (''/api/key'', ''k'')])
   \<and> GetParameter fake_sys (Path ((Component fake_parameters @ External fake_parameters) ! 1))
       [(''/db/host'', ''localhost''), (''/api/key'', ''k'')]
       = (Inl (Error ''ParameterNotFound''), [(''/db/host'', ''localhost''), (''/api/key'', ''k'')])
   \<and> (\<exists>w1. get_mode fake_sys ''out.config'' fake_parameters
               (fake_world [(''/db/host'', ''localhost''), (''/api/key'', ''k'')] [])
             = (Fatal ''Error getting values: ParameterNotFound'', w1)
           \<and> get_calls (trace w1) = [''/db/host'', ''/db/user'']
           \<and> filter is_output (trace w1) = [])"
proof -
  let ?x = "[(''/db/host'', ''localhost''), (''/api/key'', ''k'')]"
  let ?xs = "Component fake_parameters @ External fake_parameters"
  have h1: "1 < length ?xs"
    by (simp add: fake_defs)
  have h2: "fetch_seq fake_sys (map Path (take 1 ?xs)) (ext (fake_world ?x [])) = (map Inr [''localhost''], ?x)"
    by (simp add: fake_defs)
  have h3: "GetParameter fake_sys (Path (?xs ! 1)) ?x = (Inl (Error ''ParameterNotFound''), ?x)"
    by (simp add: fake_defs)
  from get_mode_fetch_failure [OF h1 h2 h3, of "''out.config''"] obtain w1 where
    "get_mode fake_sys ''out.config'' fake_parameters (fake_world ?x [])
       = (Fatal (''Error getting values: '' @ message (Error ''ParameterNotFound'')), w1)"
    "get_calls (trace w1) = get_calls (trace (fake_world ?x [])) @ map Path (take (Suc 1) ?xs)"
    "filter is_output (trace w1) = filter is_output (trace (fake_world ?x []))"
    by blast
  then have "\<exists>w1. get_mode fake_sys ''out.config'' fake_parameters (fake_world ?x [])
             = (Fatal ''Error getting values: ParameterNotFound'', w1)
           \<and> get_calls (trace w1) = [''/db/host'', ''/db/user'']
           \<and> filter is_output (trace w1) = []"
    by (simp add: fake_defs get_calls_def)
  with h1 h2 h3 show ?thesis by blast
qed

text \<open>
  C10. When the fetch fails for the spec at index \<open>k\<close> of the concatenation (the
  fetches before it succeeding), \<open>getBeanstalkOptions\<close> returns the error together
  with the options of the \<open>k\<close> specs before it, in input order.
\<close>

theorem getBeanstalkOptions_partial_result:
  assumes "k < length (Component ps @ External ps)"
    and "fetch_seq s (map Path (take k (Component ps @ External ps))) (ext w) = (map Inr vs, x1)"
    and "GetParameter s (Path ((Component ps @ External ps) ! k)) x1 = (Inl err, x2)"
  shows "\<exists>eb w1. getBeanstalkOptions s ps w = ((eb, Some err), w1)
           \<and> length (Options eb) = k
           \<and> (\<forall>i<k. Options eb ! i = \<lparr>eb_Name = Name ((Component ps @ External ps) ! i),
                                          eb_Value = vs ! i\<rparr>)"
proof -
  let ?xs = "Component ps @ External ps"
  from fetch_seq_length [OF assms(2)] assms(1) have len: "length vs = k"
    by simp
  from get_loop_failed_at [OF assms, of "\<lparr>Options = []\<rparr>"] obtain w1 where
    "getBeanstalkOptions s ps w = ((\<lparr>Options = map2 option_of (take k ?xs) vs\<rparr>, Some err), w1)"
    unfolding getBeanstalkOptions_concat by auto
  moreover have "length (map2 option_of (take k ?xs) vs) = k"
    using len assms(1) by (simp del: take_append)
  moreover have "\<forall>i<k. map2 option_of (take k ?xs) vs ! i = \<lparr>eb_Name = Name (?xs ! i), eb_Value = vs ! i\<rparr>"
    using len assms(1) by (simp add: option_of_def del: take_append)
  ultimately show ?thesis
    by (intro exI [of _ "\<lparr>Options = map2 option_of (take k ?xs) vs\<rparr>"] exI [of _ w1])
      (simp del: take_append)
qed

theorem getBeanstalkOptions_partial_result_witness:
  "1 < length (Component fake_parameters @ External fake_parameters)
   \<and> fetch_seq fake_sys (map Path (take 1 (Component fake_parameters @ External fake_parameters)))
       (ext (fake_world [(''/db/host'', ''localhost''), (''/api/key'', ''k'')] []))
       = (map Inr [''localhost''], [(''/db/host'', ''localhost''), (''/api/key'', ''k'')])
   \<and> GetParameter fake_sys (Path ((Component fake_parameters @ External fake_parameters) ! 1))
       [(''/db/host'', ''localhost''), (''/api/key'', ''k'')]
       = (Inl (Error ''ParameterNotFound''), [(''/db/host'', ''localhost''), (''/api/key'', ''k'')])
   \<and> (\<exists>eb w1. getBeanstalkOptions fake_sys fake_parameters
               (fake_world [(''/db/host'', ''localhost''), (''/api/key'', ''k'')] [])
             = ((eb, Some (Error ''ParameterNotFound'')), w1)
           \<and> length (Options eb) = 1
           \<and> Options eb ! 0 = \<lparr>eb_Name = ''DB_HOST'', eb_Value = ''localhost''\<rparr>)"
proof -
  let ?x = "[(''/db/host'', ''localhost''), (''/api/key'', ''k'')]"
  let ?xs = "Component fake_parameters @ External fake_parameters"
  have h1: "1 < length ?xs"
    by (simp add: fake_defs)
  have h2: "fetch_seq fake_sys (map Path (take 1 ?xs)) (ext (fake_world ?x [])) = (map Inr [''localhost''], ?x)"
    by (simp add: fake_defs)
  have h3: "GetParameter fake_sys (Path (?xs ! 1)) ?x = (Inl (Error ''ParameterNotFound''), ?x)"
    by (simp add: fake_defs)
  from getBeanstalkOptions_partial_result [OF h1 h2 h3] obtain eb w1 where
    "getBeanstalkOptions fake_sys fake_parameters (fake_world ?x [])
       = ((eb, Some (Error ''ParameterNotFound'')), w1)"
    "length (Options eb) = 1"
    "\<forall>i<1. Options eb ! i = \<lparr>eb_Name = Name (?xs ! i), eb_Value = [''localhost''] ! i\<rparr>"
    by blast
  then have "\<exists>eb w1. getBeanstalkOptions fake_sys fake_parameters (fake_world ?x [])
             = ((eb, Some (Error ''ParameterNotFound'')), w1)
           \<and> length (Options eb) = 1
           \<and> Options eb ! 0 = \<lparr>eb_Name = ''DB_HOST'', eb_Value = ''localhost''\<rparr>"
    by (simp add: fake_parameters_def)
  with h1 h2 h3 show ?thesis by blast
qed

section \<open>Reading the parameters file\<close>

text \<open>
  The loop that writes \<open>xs[i]\<close> from \<open>xs[i]\<close>, index by index, is a map over
  the list.
\<close>

lemma fold_update_prefix:
  "n \<le> length xs \<Longrightarrow>
   fold (\<lambda>i ys. ys[i := f (ys ! i)]) [0..<n] xs = map f (take n xs) @ drop n xs"
proof (induction n)
  case 0
  then show ?case by simp
next
  case (Suc n)
  then have n: "n < length xs" by simp
  have "(map f (take n xs) @ drop n xs)[n := f ((map f (take n xs) @ drop n xs) ! n)]
      = map f (take (Suc n) xs) @ drop (Suc n) xs"
    using n
    by (simp add: list_update_append nth_append take_Suc_conv_app_nth
        Cons_nth_drop_Suc [symmetric])
  with Suc show ?case by simp
qed

lemma prefix_paths_map:
  "prefix_paths environment xs = map (\<lambda>par. par\<lparr>Path := ''/'' @ environment @ Path par\<rparr>) xs"
  unfolding prefix_paths_def
  using fold_update_prefix [of "length xs" xs "\<lambda>par. par\<lparr>Path := ''/'' @ environment @ Path par\<rparr>"]
  by simp

text \<open>
  C2. When the file is read and parsed, \<open>readParametersFile\<close> returns the parsed
  lists with every path \<open>P\<close>, of both lists, rewritten to \<open>"/" + environment + P\<close>
  if the environment is not empty, and returns them unchanged if it is empty.
\<close>

theorem readParametersFile_paths:
  assumes "ReadFile s filename (ext w) = (Inr inputFile, x)"
    and "Unmarshal s inputFile = (ps, None)"
  shows "\<exists>ps1 w1. readParametersFile s filename environment w = ((ps1, None), w1)
           \<and> (environment \<noteq> [] \<longrightarrow>
                Component ps1 = map (\<lambda>par. par\<lparr>Path := ''/'' @ environment @ Path par\<rparr>) (Component ps)
              \<and> External ps1 = map (\<lambda>par. par\<lparr>Path := ''/'' @ environment @ Path par\<rparr>) (External ps))
           \<and> (environment = [] \<longrightarrow> ps1 = ps)"
  using assms
  by (cases "environment = []") (simp_all add: readParametersFile_def call_def prefix_paths_map)

theorem readParametersFile_paths_witness:
  "ReadFile fake_sys ''template.yaml'' (ext (fake_world [] [])) = (Inr ''doc'', [])
   \<and> Unmarshal fake_sys ''doc'' = (fake_parameters, None)
   \<and> (\<exists>ps1 w1. readParametersFile fake_sys ''template.yaml'' ''prod'' (fake_world [] []) = ((ps1, None), w1)
        \<and> map Path (Component ps1) = [''/prod/db/host'', ''/prod/db/user'']
        \<and> map Path (External ps1) = [''/prod/api/key''])
   \<and> (\<exists>ps1 w1. readParametersFile fake_sys ''template.yaml'' [] (fake_world [] []) = ((ps1, None), w1)
        \<and> ps1 = fake_parameters)"
proof -
  have h1: "ReadFile fake_sys ''template.yaml'' (ext (fake_world [] [])) = (Inr ''doc'', [])"
    by (simp add: fake_defs)
  have h2: "Unmarshal fake_sys ''doc'' = (fake_parameters, None)"
    by (simp add: fake_defs)
  from readParametersFile_paths [OF h1 h2, of "''prod''"] obtain ps1 w1 where
    "readParametersFile fake_sys ''template.yaml'' ''prod'' (fake_world [] []) = ((ps1, None), w1)"
    "Component ps1 = map (\<lambda>par. par\<lparr>Path := ''/'' @ ''prod'' @ Path par\<rparr>) (Component fake_parameters)"
    "External ps1 = map (\<lambda>par. par\<lparr>Path := ''/'' @ ''prod'' @ Path par\<rparr>) (External fake_parameters)"
    by auto
  then have a: "\<exists>ps1 w1. readParametersFile fake_sys ''template.yaml'' ''prod'' (fake_world [] []) = ((ps1, None), w1)
        \<and> map Path (Component ps1) = [''/prod/db/host'', ''/prod/db/user'']
        \<and> map Path (External ps1) = [''/prod/api/key'']"
    by (simp add: fake_parameters_def)
  from readParametersFile_paths [OF h1 h2, of "[]"]
  have b: "\<exists>ps1 w1. readParametersFile fake_sys ''template.yaml'' [] (fake_world [] []) = ((ps1, None), w1)
        \<and> ps1 = fake_parameters"
    by simp
  from h1 h2 a b show ?thesis by blast
qed

section \<open>Set mode\<close>

text \<open>
  A stream that holds a newline starts with its first line: the text before the first
  newline, then that newline. \<open>ReadString\<close> on a fresh reader returns this line, and
  \<open>Replace_newline\<close> removes its last character only.
\<close>

lemma first_line:
  assumes "newline \<in> set str"
  shows "\<exists>tail. str = takeWhile (\<lambda>c. c \<noteq> newline) str @ newline # tail"
proof -
  from assms have ne: "dropWhile (\<lambda>c. c \<noteq> newline) str \<noteq> []"
    by simp
  from hd_dropWhile [OF ne] have "hd (dropWhile (\<lambda>c. c \<noteq> newline) str) = newline"
    by simp
  with ne obtain tail where "dropWhile (\<lambda>c. c \<noteq> newline) str = newline # tail"
    by (cases "dropWhile (\<lambda>c. c \<noteq> newline) str") auto
  then have "str = takeWhile (\<lambda>c. c \<noteq> newline) str @ newline # tail"
    by (metis takeWhile_dropWhile_id)
  then show ?thesis ..
qed

lemma ReadString_complete:
  assumes "newline \<in> set (buf @ concat chunks)" and "newline \<notin> set buf"
  shows "\<exists>rest. ReadString buf chunks =
           ((takeWhile (\<lambda>c. c \<noteq> newline) (buf @ concat chunks) @ [newline], None), rest)"
  using assms
proof (induction chunks arbitrary: buf)
  case Nil
  then show ?case by simp
next
  case (Cons chunk chunks)
  show ?case
  proof (cases "newline \<in> set (buf @ chunk)")
    case True
    then have "takeWhile (\<lambda>c. c \<noteq> newline) ((buf @ chunk) @ concat chunks)
        = takeWhile (\<lambda>c. c \<noteq> newline) (buf @ chunk)"
      by (intro takeWhile_append1 [of newline]) simp_all
    with True show ?thesis by simp
  next
    case False
    with Cons.prems have "newline \<in> set ((buf @ chunk) @ concat chunks)"
      by simp
    from Cons.IH [OF this False] False show ?thesis
      by simp
  qed
qed

lemma Replace_newline_line:
  "newline \<notin> set v \<Longrightarrow> Replace_newline (v @ [newline]) = v"
  by (auto simp: Replace_newline_def filter_id_conv)

lemma input_value_given:
  "Value par \<noteq> [] \<Longrightarrow>
   input_value par w =
     (Inr (Value par), emit (Stdout (''* Setting value for `'' @ Path par @ ''`...\<newline>'')) w)"
  by (simp add: input_value_def)

lemma input_value_read:
  assumes "Value par = []" and "newline \<in> set (concat (stdin w))"
  shows "\<exists>chunks. input_value par w =
           (Inr (takeWhile (\<lambda>c. c \<noteq> newline) (concat (stdin w))),
            emit StdinReadString
              ((emit (Stdout (''* Input value for `'' @ Path par @ ''`: '')) w)\<lparr>stdin := chunks\<rparr>))"
proof -
  from ReadString_complete [of "[]" "stdin w"] assms(2) obtain rest where
    "ReadString [] (stdin w) = ((takeWhile (\<lambda>c. c \<noteq> newline) (concat (stdin w)) @ [newline], None), rest)"
    by auto
  moreover have "Replace_newline (takeWhile (\<lambda>c. c \<noteq> newline) (concat (stdin w)) @ [newline])
      = takeWhile (\<lambda>c. c \<noteq> newline) (concat (stdin w))"
    by (rule Replace_newline_line) (auto dest: set_takeWhileD)
  ultimately show ?thesis
    using assms(1) by (intro exI [of _ rest]) (simp add: input_value_def Let_def)
qed

lemma input_value_frame:
  assumes "input_value par w = (r, w1)"
  shows "ext w1 = ext w" and "put_calls (trace w1) = put_calls (trace w)"
    and "get_calls (trace w1) = get_calls (trace w)"
  using assms
  by (auto simp: input_value_def Let_def put_calls_def get_calls_def split: if_splits prod.splits option.splits)

text \<open>
  The requests of a whole run of the loop: one per spec of a prefix of the list (the
  whole list when the run succeeds), each built by \<open>request\<close> from its spec.
\<close>

lemma set_loop_calls:
  assumes "set_loop s xs w = (r, w1)"
  shows "\<exists>vs. length vs \<le> length xs \<and> (r = None \<longrightarrow> length vs = length xs)
           \<and> put_calls (trace w1) = put_calls (trace w) @ map2 request xs vs
           \<and> get_calls (trace w1) = get_calls (trace w)
           \<and> (\<forall>i<length vs. Value (xs ! i) \<noteq> [] \<longrightarrow> vs ! i = Value (xs ! i))"
  using assms
proof (induction xs arbitrary: w)
  case Nil
  then show ?case by simp
next
  case (Cons par rest)
  obtain rv w0 where iv: "input_value par w = (rv, w0)"
    by (cases "input_value par w")
  note fr = input_value_frame [OF iv]
  show ?case
  proof (cases rv)
    case (Inl err)
    with Cons.prems iv have "w1 = w0" by simp
    with fr have "put_calls (trace w1) = put_calls (trace w) @ map2 request (par # rest) []"
      and "get_calls (trace w1) = get_calls (trace w)"
      by simp_all
    moreover from Inl Cons.prems iv have "r \<noteq> None" by auto
    ultimately show ?thesis
      by (intro exI [of _ "[]"]) simp
  next
    case (Inr v)
    have v: "Value par \<noteq> [] \<Longrightarrow> v = Value par"
      using iv Inr by (simp add: input_value_given)
    let ?w = "emit (PutParameterCall (request par v)) (emit (StdoutPutInput (request par v)) w0)"
    obtain rp w2 where c: "call (PutParameter s (request par v)) ?w = (rp, w2)"
      by (cases "call (PutParameter s (request par v)) ?w")
    note cr = call_result [OF c]
    have tr2: "put_calls (trace w2) = put_calls (trace w) @ [request par v]"
      "get_calls (trace w2) = get_calls (trace w)"
      using cr(2) fr by (simp_all add: put_calls_def get_calls_def)
    show ?thesis
    proof (cases rp)
      case (Inl err)
      with Cons.prems iv Inr c have "w1 = w2" and "r \<noteq> None"
        by (auto simp: request_def Let_def)
      with tr2 v show ?thesis
        by (intro exI [of _ "[v]"]) auto
    next
      case (Inr putOutput)
      with Cons.prems iv \<open>rv = Inr v\<close> c
      have "set_loop s rest (emit (StdoutPutOutput putOutput) w2) = (r, w1)"
        by (simp add: request_def Let_def)
      from Cons.IH [OF this] obtain vs where
        ih: "length vs \<le> length rest" "r = None \<longrightarrow> length vs = length rest"
          "put_calls (trace w1) = put_calls (trace (emit (StdoutPutOutput putOutput) w2)) @ map2 request rest vs"
          "get_calls (trace w1) = get_calls (trace (emit (StdoutPutOutput putOutput) w2))"
          "\<forall>i<length vs. Value (rest ! i) \<noteq> [] \<longrightarrow> vs ! i = Value (rest ! i)"
        by blast
      have "\<forall>i<length (v # vs). Value ((par # rest) ! i) \<noteq> [] \<longrightarrow> (v # vs) ! i = Value ((par # rest) ! i)"
        using ih(5) v by (auto simp: nth_Cons split: nat.splits)
      with ih tr2 show ?thesis
        by (intro exI [of _ "v # vs"]) (simp add: put_calls_def get_calls_def)
    qed
  qed
qed

lemma set_loop_append:
  "set_loop s (xs @ ys) w =
     (case set_loop s xs w of
        (Some err, w1) \<Rightarrow> (Some err, w1)
      | (None, w1) \<Rightarrow> set_loop s ys w1)"
  by (induction xs arbitrary: w) (auto split: prod.splits sum.splits option.splits simp: Let_def)

lemma set_loop_reaches:
  assumes "Component ps = pre @ par # post" and "set_loop s pre w = (None, w0)"
  shows "setBeanstalkOptions s ps w = set_loop s (par # post) w0"
  using assms by (simp add: setBeanstalkOptions_def set_loop_append)

lemma map2_request_fields:
  "length vs \<le> length xs \<Longrightarrow> map put_Name (map2 request xs vs) = map Path (take (length vs) xs)"
  "length vs \<le> length xs \<Longrightarrow> map put_Description (map2 request xs vs) = map Description (take (length vs) xs)"
  "i \<in> set (map2 request xs vs) \<Longrightarrow> put_Overwrite i \<and> put_Type i = ''String''"
proof -
  show "length vs \<le> length xs \<Longrightarrow> map put_Name (map2 request xs vs) = map Path (take (length vs) xs)"
    by (induction xs vs rule: list_induct2') (simp_all add: request_def)
  show "length vs \<le> length xs \<Longrightarrow> map put_Description (map2 request xs vs) = map Description (take (length vs) xs)"
    by (induction xs vs rule: list_induct2') (simp_all add: request_def)
  show "i \<in> set (map2 request xs vs) \<Longrightarrow> put_Overwrite i \<and> put_Type i = ''String''"
    by (auto simp: request_def dest!: set_zip_leftD elim!: in_set_zipE)
qed



text \<open>
  C5. In set mode, when the loop reaches a component spec \<open>par\<close> whose
  \<open>Value\<close> is not empty (the specs \<open>pre\<close> before it stored, leaving the world
  \<open>w0\<close>), what happens up to the store of \<open>par\<close> is: the message, the print of
  the request and the call of \<open>PutParameter\<close> with exactly that \<open>Value\<close>. Standard
  input is not read and no prompt is printed.
\<close>

theorem set_given_value_no_read:
  assumes "Component ps = pre @ par # post"
    and "set_loop s pre w = (None, w0)"
    and "Value par \<noteq> []"
  shows "\<exists>rp w2.
           PutParameter s (request par (Value par)) (ext w0) = (rp, ext w2)
         \<and> trace w2 = trace w0 @
             [Stdout (''* Setting value for `'' @ Path par @ ''`...\<newline>''),
              StdoutPutInput (request par (Value par)),
              PutParameterCall (request par (Value par))]
         \<and> stdin w2 = stdin w0
         \<and> setBeanstalkOptions s ps w =
             (case rp of
                Inl err \<Rightarrow> (Some err, w2)
              | Inr putOutput \<Rightarrow> set_loop s post (emit (StdoutPutOutput putOutput) w2))"
proof -
  let ?i = "request par (Value par)"
  let ?w = "emit (PutParameterCall ?i) (emit (StdoutPutInput ?i)
      (emit (Stdout (''* Setting value for `'' @ Path par @ ''`...\<newline>'')) w0))"
  obtain rp w2 where c: "call (PutParameter s ?i) ?w = (rp, w2)"
    by (cases "call (PutParameter s ?i) ?w")
  from call_result [OF c] have "PutParameter s ?i (ext w0) = (rp, ext w2)"
    and "trace w2 = trace w0 @ [Stdout (''* Setting value for `'' @ Path par @ ''`...\<newline>''),
              StdoutPutInput ?i, PutParameterCall ?i]"
    and "stdin w2 = stdin w0"
    by simp_all
  moreover have "setBeanstalkOptions s ps w =
      (case rp of Inl err \<Rightarrow> (Some err, w2)
       | Inr putOutput \<Rightarrow> set_loop s post (emit (StdoutPutOutput putOutput) w2))"
    using c assms(3)
    by (simp add: set_loop_reaches [OF assms(1,2)] input_value_given request_def Let_def
        split: sum.splits)
  ultimately show ?thesis by blast
qed

theorem set_given_value_no_read_witness:
  "Component fake_parameters =
     [] @ \<lparr>Name = ''DB_HOST'', Description = ''host'', Path = ''/db/host'', Value = ''abc''\<rparr>
        # [\<lparr>Name = ''DB_USER'', Description = ''user'', Path = ''/db/user'', Value = []\<rparr>]
   \<and> set_loop fake_sys [] (fake_world [] [''secret\<newline>'']) = (None, fake_world [] [''secret\<newline>''])
   \<and> Value \<lparr>Name = ''DB_HOST'', Description = ''host'', Path = ''/db/host'', Value = ''abc''\<rparr> \<noteq> []
   \<and> (\<exists>rp (w2 :: ((string \<times> string) list, nat) world).
         PutParameter fake_sys
           \<lparr>put_Name = ''/db/host'', put_Description = ''host'', put_Value = ''abc'',
            put_Overwrite = True, put_Type = ''String''\<rparr> [] = (rp, ext w2)
       \<and> trace w2 =
           [Stdout ''* Setting value for `/db/host`...\<newline>'',
            StdoutPutInput \<lparr>put_Name = ''/db/host'', put_Description = ''host'', put_Value = ''abc'',
                             put_Overwrite = True, put_Type = ''String''\<rparr>,
            PutParameterCall \<lparr>put_Name = ''/db/host'', put_Description = ''host'', put_Value = ''abc'',
                               put_Overwrite = True, put_Type = ''String''\<rparr>]
       \<and> stdin w2 = [''secret\<newline>''])"
proof -
  let ?par = "\<lparr>Name = ''DB_HOST'', Description = ''host'', Path = ''/db/host'', Value = ''abc''\<rparr>"
  let ?post = "[\<lparr>Name = ''DB_USER'', Description = ''user'', Path = ''/db/user'', Value = []\<rparr>]"
  let ?W = "fake_world [] [''secret\<newline>'']"
  have h1: "Component fake_parameters = [] @ ?par # ?post"
    by (simp add: fake_parameters_def)
  have h2: "set_loop fake_sys [] ?W = (None, ?W)"
    by simp
  have h3: "Value ?par \<noteq> []"
    by simp
  from set_given_value_no_read [OF h1 h2 h3] obtain rp and w2 :: "((string \<times> string) list, nat) world" where
    "PutParameter fake_sys (request ?par (Value ?par)) (ext ?W) = (rp, ext w2)"
    "trace w2 = trace ?W @
       [Stdout (''* Setting value for `'' @ Path ?par @ ''`...\<newline>''),
        StdoutPutInput (request ?par (Value ?par)),
        PutParameterCall (request ?par (Value ?par))]"
    "stdin w2 = stdin ?W"
    by (elim exE conjE) (rule that; assumption)
  then have "\<exists>rp (w2 :: ((string \<times> string) list, nat) world).
         PutParameter fake_sys
           \<lparr>put_Name = ''/db/host'', put_Description = ''host'', put_Value = ''abc'',
            put_Overwrite = True, put_Type = ''String''\<rparr> [] = (rp, ext w2)
       \<and> trace w2 =
           [Stdout ''* Setting value for `/db/host`...\<newline>'',
            StdoutPutInput \<lparr>put_Name = ''/db/host'', put_Description = ''host'', put_Value = ''abc'',
                             put_Overwrite = True, put_Type = ''String''\<rparr>,
            PutParameterCall \<lparr>put_Name = ''/db/host'', put_Description = ''host'', put_Value = ''abc'',
                               put_Overwrite = True, put_Type = ''String''\<rparr>]
       \<and> stdin w2 = [''secret\<newline>'']"
    by (intro exI [of _ rp] exI [of _ w2]) (simp add: request_def fake_sys_def fake_world_def)
  with h1 h2 h3 show ?thesis by (intro conjI)
qed

text \<open>
  C6. In set mode, when the loop reaches a component spec \<open>par\<close> whose
  \<open>Value\<close> is empty and standard input holds a newline, the value stored is the text
  \<open>v\<close> of standard input before its first newline: the line read is \<open>v\<close> followed
  by the newline, and every character of \<open>v\<close> is kept as it is.
\<close>

theorem set_read_value_strips_newline_only:
  assumes "Component ps = pre @ par # post"
    and "set_loop s pre w = (None, w0)"
    and "Value par = []"
    and "newline \<in> set (concat (stdin w0))"
  shows "\<exists>v tail rp w2.
           v = takeWhile (\<lambda>c. c \<noteq> newline) (concat (stdin w0))
         \<and> concat (stdin w0) = v @ newline # tail \<and> newline \<notin> set v
         \<and> PutParameter s (request par v) (ext w0) = (rp, ext w2)
         \<and> trace w2 = trace w0 @
             [Stdout (''* Input value for `'' @ Path par @ ''`: ''),
              StdinReadString,
              StdoutPutInput (request par v),
              PutParameterCall (request par v)]
         \<and> put_Value (request par v) = v
         \<and> setBeanstalkOptions s ps w =
             (case rp of
                Inl err \<Rightarrow> (Some err, w2)
              | Inr putOutput \<Rightarrow> set_loop s post (emit (StdoutPutOutput putOutput) w2))"
proof -
  let ?v = "takeWhile (\<lambda>c. c \<noteq> newline) (concat (stdin w0))"
  let ?i = "request par ?v"
  from first_line [OF assms(4)] obtain tail where line: "concat (stdin w0) = ?v @ newline # tail"
    by blast
  have nl: "newline \<notin> set ?v"
    by (auto dest: set_takeWhileD)
  from input_value_read [OF assms(3,4)] obtain chunks where
    iv: "input_value par w0 = (Inr ?v, emit StdinReadString
          ((emit (Stdout (''* Input value for `'' @ Path par @ ''`: '')) w0)\<lparr>stdin := chunks\<rparr>))"
    by blast
  let ?w = "emit (PutParameterCall ?i) (emit (StdoutPutInput ?i) (emit StdinReadString
          ((emit (Stdout (''* Input value for `'' @ Path par @ ''`: '')) w0)\<lparr>stdin := chunks\<rparr>)))"
  obtain rp w2 where c: "call (PutParameter s ?i) ?w = (rp, w2)"
    by (cases "call (PutParameter s ?i) ?w")
  from call_result [OF c] have "PutParameter s ?i (ext w0) = (rp, ext w2)"
    and "trace w2 = trace w0 @ [Stdout (''* Input value for `'' @ Path par @ ''`: ''),
              StdinReadString, StdoutPutInput ?i, PutParameterCall ?i]"
    by simp_all
  moreover have "put_Value ?i = ?v"
    by (simp add: request_def)
  moreover have "setBeanstalkOptions s ps w =
      (case rp of Inl err \<Rightarrow> (Some err, w2)
       | Inr putOutput \<Rightarrow> set_loop s post (emit (StdoutPutOutput putOutput) w2))"
    using c iv
    by (simp add: set_loop_reaches [OF assms(1,2)] request_def Let_def split: sum.splits)
  ultimately show ?thesis
    using line nl by blast
qed

theorem set_read_value_strips_newline_only_witness:
  "Component (fake_parameters\<lparr>Component := [\<lparr>Name = ''DB_USER'', Description = ''user'', Path = ''/db/user'', Value = []\<rparr>]\<rparr>) =
     [] @ \<lparr>Name = ''DB_USER'', Description = ''user'', Path = ''/db/user'', Value = []\<rparr> # []
   \<and> set_loop fake_sys [] (fake_world [] ['' a'', ''b c \<newline>more'', ''x''])
       = (None, fake_world [] ['' a'', ''b c \<newline>more'', ''x''])
   \<and> Value \<lparr>Name = ''DB_USER'', Description = ''user'', Path = ''/db/user'', Value = []\<rparr> = []
   \<and> newline \<in> set (concat (stdin (fake_world [] ['' a'', ''b c \<newline>more'', ''x''])))
   \<and> (\<exists>rp (w2 :: ((string \<times> string) list, nat) world).
         PutParameter fake_sys
           \<lparr>put_Name = ''/db/user'', put_Description = ''user'', put_Value = '' ab c '',
            put_Overwrite = True, put_Type = ''String''\<rparr> [] = (rp, ext w2)
       \<and> trace w2 =
           [Stdout ''* Input value for `/db/user`: '',
            StdinReadString,
            StdoutPutInput \<lparr>put_Name = ''/db/user'', put_Description = ''user'', put_Value = '' ab c '',
                             put_Overwrite = True, put_Type = ''String''\<rparr>,
            PutParameterCall \<lparr>put_Name = ''/db/user'', put_Description = ''user'', put_Value = '' ab c '',
                               put_Overwrite = True, put_Type = ''String''\<rparr>])"
proof -
  let ?par = "\<lparr>Name = ''DB_USER'', Description = ''user'', Path = ''/db/user'', Value = []\<rparr>"
  let ?ps = "fake_parameters\<lparr>Component := [?par]\<rparr>"
  let ?W = "fake_world [] ['' a'', ''b c \<newline>more'', ''x'']"
  have h1: "Component ?ps = [] @ ?par # []"
    by simp
  have h2: "set_loop fake_sys [] ?W = (None, ?W)"
    by simp
  have h3: "Value ?par = []"
    by simp
  have h4: "newline \<in> set (concat (stdin ?W))"
    by (simp add: fake_world_def)
  from set_read_value_strips_newline_only [OF h1 h2 h3 h4] obtain v rp and w2 :: "((string \<times> string) list, nat) world" where
    "v = takeWhile (\<lambda>c. c \<noteq> newline) (concat (stdin ?W))"
    "PutParameter fake_sys (request ?par v) (ext ?W) = (rp, ext w2)"
    "trace w2 = trace ?W @
       [Stdout (''* Input value for `'' @ Path ?par @ ''`: ''), StdinReadString,
        StdoutPutInput (request ?par v), PutParameterCall (request ?par v)]"
    by (elim exE conjE) (rule that; assumption)
  then have "\<exists>rp (w2 :: ((string \<times> string) list, nat) world).
         PutParameter fake_sys
           \<lparr>put_Name = ''/db/user'', put_Description = ''user'', put_Value = '' ab c '',
            put_Overwrite = True, put_Type = ''String''\<rparr> [] = (rp, ext w2)
       \<and> trace w2 =
           [Stdout ''* Input value for `/db/user`: '',
            StdinReadString,
            StdoutPutInput \<lparr>put_Name = ''/db/user'', put_Description = ''user'', put_Value = '' ab c '',
                             put_Overwrite = True, put_Type = ''String''\<rparr>,
            PutParameterCall \<lparr>put_Name = ''/db/user'', put_Description = ''user'', put_Value = '' ab c '',
                               put_Overwrite = True, put_Type = ''String''\<rparr>]"
    by (intro exI [of _ rp] exI [of _ w2]) (simp add: request_def fake_sys_def fake_world_def)
  with h1 h2 h3 h4 show ?thesis by (intro conjI)
qed

text \<open>
  C7. In set mode every request sent to \<open>PutParameter\<close> has \<open>Overwrite\<close> set
  and the type \<open>"String"\<close>.
\<close>

theorem setBeanstalkOptions_overwrite_string:
  assumes "setBeanstalkOptions s ps w = (r, w1)"
  shows "\<exists>calls. put_calls (trace w1) = put_calls (trace w) @ calls
           \<and> (\<forall>i\<in>set calls. put_Overwrite i \<and> put_Type i = ''String'')"
proof -
  from assms have "set_loop s (Component ps) w = (r, w1)"
    by (simp add: setBeanstalkOptions_def)
  from set_loop_calls [OF this] obtain vs where
    "put_calls (trace w1) = put_calls (trace w) @ map2 request (Component ps) vs"
    by blast
  then show ?thesis
    using map2_request_fields(3) by blast
qed

theorem setBeanstalkOptions_overwrite_string_witness:
  "setBeanstalkOptions fake_sys fake_parameters (fake_world [] ['' a'', ''b c \<newline>more'', ''x''])
     = (None, snd (setBeanstalkOptions fake_sys fake_parameters (fake_world [] ['' a'', ''b c \<newline>more'', ''x''])))
   \<and> length (put_calls (trace (snd (setBeanstalkOptions fake_sys fake_parameters
                   (fake_world [] ['' a'', ''b c \<newline>more'', ''x''])))))  = 2
   \<and> list_all (\<lambda>i. put_Overwrite i \<and> put_Type i = ''String'')
        (put_calls (trace (snd (setBeanstalkOptions fake_sys fake_parameters
                   (fake_world [] ['' a'', ''b c \<newline>more'', ''x''])))))"
proof -
  let ?W = "fake_world [] ['' a'', ''b c \<newline>more'', ''x'']"
  let ?w1 = "snd (setBeanstalkOptions fake_sys fake_parameters ?W)"
  have "fst (setBeanstalkOptions fake_sys fake_parameters ?W) = None"
    by (simp add: fake_defs run_defs)
  then have h: "setBeanstalkOptions fake_sys fake_parameters ?W = (None, ?w1)"
    by (metis prod.collapse)
  have len: "length (put_calls (trace ?w1)) = 2"
    by (simp add: fake_defs run_defs)
  from setBeanstalkOptions_overwrite_string [OF h] obtain calls where
    "put_calls (trace ?w1) = put_calls (trace ?W) @ calls"
    "\<forall>i\<in>set calls. put_Overwrite i \<and> put_Type i = ''String''"
    by blast
  then have "list_all (\<lambda>i. put_Overwrite i \<and> put_Type i = ''String'') (put_calls (trace ?w1))"
    by (simp add: fake_world_def put_calls_def list_all_iff)
  with h len show ?thesis by blast
qed

section \<open>The mode flag\<close>

text \<open>
  The mode is the value of the last \<open>mode\<close> or \<open>m\<close> flag of the command line,
  and the default of their registration when there is none.
\<close>

lemma flag_Parse_mode:
  "flag_Parse args f0 = Some f \<Longrightarrow>
   flag_mode f = last (flag_mode f0 # map snd (filter (\<lambda>(name, v). name = ''mode'' \<or> name = ''m'') args))"
proof (induction args arbitrary: f0)
  case Nil
  then show ?case by simp
next
  case (Cons a args)
  obtain name v where a: "a = (name, v)" by (cases a)
  from Cons.prems a Cons.IH show ?case
    by (auto split: if_splits)
qed

lemma trace_banner:
  "trace (banner f w) = trace w @
     [Stderr ''-----------------------------------------\<newline>'',
      Stderr (''input:       '' @ '' '' @ flag_input f @ ''\<newline>''),
      Stderr (''output:      '' @ '' '' @ flag_output f @ ''\<newline>''),
      Stderr (''environment: '' @ '' '' @ flag_environment f @ ''\<newline>''),
      Stderr (''mode:        '' @ '' '' @ flag_mode f @ ''\<newline>''),
      Stderr ''-----------------------------------------\<newline>'']"
  and stdin_banner: "stdin (banner f w) = stdin w"
  and ext_banner: "ext (banner f w) = ext w"
  by (simp_all add: banner_def)

lemma readParametersFile_frame:
  assumes "readParametersFile s filename environment w = (r, w1)"
  shows "trace w1 = trace w" and "stdin w1 = stdin w"
  using assms
  by (auto simp: readParametersFile_def call_def split: prod.splits sum.splits option.splits if_splits)

text \<open>
  With a mode other than \<open>get\<close> and \<open>set\<close> a run never ends well, and its only
  events are the six lines of the banner.
\<close>

lemma main_invalid_mode:
  assumes "flag_Parse args default_flags = Some f"
    and "flag_mode f \<noteq> ''get''" and "flag_mode f \<noteq> ''set''"
  shows "fst (main s args w) \<noteq> Done
       \<and> trace (snd (main s args w)) = trace (banner f w)
       \<and> stdin (snd (main s args w)) = stdin w"
proof (cases "flag_input f = []")
  case True
  with assms show ?thesis
    by (simp add: main_def Let_def stdin_banner)
next
  case False
  obtain r w2 where rd: "readParametersFile s (flag_input f) (flag_environment f) (banner f w) = (r, w2)"
    by (cases "readParametersFile s (flag_input f) (flag_environment f) (banner f w)")
  note fr = readParametersFile_frame [OF rd]
  obtain ps e where r: "r = (ps, e)" by (cases r)
  show ?thesis
  proof (cases e)
    case (Some err)
    with assms False rd r fr show ?thesis
      by (simp add: main_def Let_def stdin_banner)
  next
    case None
    obtain e3 w3 where c: "call (NewSession s) w2 = (e3, w3)"
      by (cases "call (NewSession s) w2")
    from call_result [OF c] fr have "trace w3 = trace (banner f w)" "stdin w3 = stdin w"
      by (simp_all add: stdin_banner)
    with assms False rd r None c show ?thesis
      by (cases e3) (simp_all add: main_def Let_def)
  qed
qed

text \<open>
  Up to the test of the mode a run prints the banner only: it fetches nothing, stores
  nothing, puts nothing out and leaves standard input alone.
\<close>

lemma dispatch_world:
  assumes "readParametersFile s filename environment (banner f w) = (r, w2)"
    and "call (NewSession s) w2 = (e, w3)"
  shows "get_calls (trace w3) = get_calls (trace w)"
    and "put_calls (trace w3) = put_calls (trace w)"
    and "filter is_output (trace w3) = filter is_output (trace w)"
    and "stdin w3 = stdin w"
proof -
  from readParametersFile_frame [OF assms(1)] call_result [OF assms(2)]
  have "trace w3 = trace (banner f w)" and "stdin w3 = stdin (banner f w)"
    by simp_all
  then show "get_calls (trace w3) = get_calls (trace w)"
    and "put_calls (trace w3) = put_calls (trace w)"
    and "filter is_output (trace w3) = filter is_output (trace w)"
    and "stdin w3 = stdin w"
    by (simp_all add: trace_banner stdin_banner get_calls_def put_calls_def)
qed

text \<open>
  C8. The mode defaults to \<open>get\<close>, and is the value of the last \<open>mode\<close> or
  \<open>m\<close> flag when one is given. Once the input file is loaded and the session is
  created:
  \<^item> mode \<open>get\<close> runs the get pipeline: \<open>main\<close> calls \<open>getBeanstalkOptions\<close>,
    ends with its error if there is one, and otherwise marshals the options and prints
    the document or writes it to the output file. When the fetches succeed and the
    document goes to standard output, the run ends well, has fetched the paths of the
    component list followed by the external list, has stored nothing, and its only
    output is the document;
  \<^item> mode \<open>set\<close> runs the set pipeline: \<open>main\<close> calls \<open>setBeanstalkOptions\<close>
    and ends with its error or ends well. The requests stored are those of a prefix of
    the component list, all of it when the run ends well, and nothing is fetched;
  \<^item> any other mode is the fatal error \<open>Invalid mode\<close>.
  With a mode other than \<open>get\<close> and \<open>set\<close> the run never ends well, whatever
  happens before, and does nothing but print the banner: no fetch, no store, no
  prompt, no read of standard input and no output.
\<close>

theorem main_mode_dispatch:
  assumes "flag_Parse args default_flags = Some f"
  shows "flag_mode default_flags = ''get''
       \<and> flag_mode f = last (''get'' # map snd (filter (\<lambda>(name, v). name = ''mode'' \<or> name = ''m'') args))
       \<and> (flag_input f \<noteq> []
            \<and> readParametersFile s (flag_input f) (flag_environment f) (banner f w) = ((ps, None), w2)
            \<and> call (NewSession s) w2 = (None, w3) \<longrightarrow>
            main s args w =
              (if flag_mode f = ''get'' then
                 (case getBeanstalkOptions s ps w3 of
                    ((ebOptions, Some err), w4) \<Rightarrow>
                      (Fatal (''Error getting values: '' @ message err), w4)
                  | ((ebOptions, None), w4) \<Rightarrow>
                      (case Marshal s ebOptions of
                         Inl err \<Rightarrow> (Fatal (''Error marshaling beanstalk options: '' @ message err), w4)
                       | Inr ebYaml \<Rightarrow>
                           (if flag_output f = [] then (Done, emit (Stdout (ebYaml @ ''\<newline>'')) w4)
                            else
                              (case writeToFile s (flag_output f) ebYaml w4 of
                                 (Some err, w5) \<Rightarrow>
                                   (Fatal (''Error writing to file `'' @ flag_output f @ ''`''), w5)
                               | (None, w5) \<Rightarrow> (Done, w5)))))
               else if flag_mode f = ''set'' then
                 (case setBeanstalkOptions s ps w3 of
                    (Some err, w4) \<Rightarrow> (Fatal (''Error setting values: '' @ message err), w4)
                  | (None, w4) \<Rightarrow> (Done, w4))
               else (Fatal (''Invalid mode: '' @ flag_mode f), w3))
          \<and> (flag_mode f = ''get'' \<and> flag_output f = []
                \<and> fetch_seq s (map Path (Component ps @ External ps)) (ext w3) = (map Inr vs, x)
                \<and> Marshal s \<lparr>Options = map2 option_of (Component ps @ External ps) vs\<rparr> = Inr doc \<longrightarrow>
                fst (main s args w) = Done
              \<and> get_calls (trace (snd (main s args w)))
                  = get_calls (trace w) @ map Path (Component ps @ External ps)
              \<and> put_calls (trace (snd (main s args w))) = put_calls (trace w)
              \<and> filter is_output (trace (snd (main s args w)))
                  = filter is_output (trace w) @ [Stdout (doc @ ''\<newline>'')]
              \<and> stdin (snd (main s args w)) = stdin w)
          \<and> (flag_mode f = ''set'' \<longrightarrow>
                (\<exists>vs. length vs \<le> length (Component ps)
                    \<and> (fst (main s args w) = Done \<longrightarrow> length vs = length (Component ps))
                    \<and> put_calls (trace (snd (main s args w)))
                        = put_calls (trace w) @ map2 request (Component ps) vs)
              \<and> get_calls (trace (snd (main s args w))) = get_calls (trace w)))
       \<and> (flag_mode f \<noteq> ''get'' \<and> flag_mode f \<noteq> ''set'' \<longrightarrow>
            fst (main s args w) \<noteq> Done
          \<and> trace (snd (main s args w)) = trace (banner f w)
          \<and> stdin (snd (main s args w)) = stdin w)"
proof -
  have default: "flag_mode default_flags = ''get''"
    by (simp add: default_flags_def)
  from flag_Parse_mode [OF assms]
  have given: "flag_mode f = last (''get'' # map snd (filter (\<lambda>(name, v). name = ''mode'' \<or> name = ''m'') args))"
    by (simp add: default_flags_def)
  note invalid = main_invalid_mode [OF assms, of s w]
  let ?get = "case getBeanstalkOptions s ps w3 of
                    ((ebOptions, Some err), w4) \<Rightarrow>
                      (Fatal (''Error getting values: '' @ message err), w4)
                  | ((ebOptions, None), w4) \<Rightarrow>
                      (case Marshal s ebOptions of
                         Inl err \<Rightarrow> (Fatal (''Error marshaling beanstalk options: '' @ message err), w4)
                       | Inr ebYaml \<Rightarrow>
                           (if flag_output f = [] then (Done, emit (Stdout (ebYaml @ ''\<newline>'')) w4)
                            else
                              (case writeToFile s (flag_output f) ebYaml w4 of
                                 (Some err, w5) \<Rightarrow>
                                   (Fatal (''Error writing to file `'' @ flag_output f @ ''`''), w5)
                               | (None, w5) \<Rightarrow> (Done, w5))))"
  let ?set = "case setBeanstalkOptions s ps w3 of
                    (Some err, w4) \<Rightarrow> (Fatal (''Error setting values: '' @ message err), w4)
                  | (None, w4) \<Rightarrow> (Done, w4)"
  let ?xs = "Component ps @ External ps"
  {
    assume reach: "flag_input f \<noteq> []"
      "readParametersFile s (flag_input f) (flag_environment f) (banner f w) = ((ps, None), w2)"
      "call (NewSession s) w2 = (None, w3)"
    note w3 = dispatch_world [OF reach(2,3)]
    have eq: "main s args w =
        (if flag_mode f = ''get'' then ?get else if flag_mode f = ''set'' then ?set
         else (Fatal (''Invalid mode: '' @ flag_mode f), w3))"
      using reach assms by (simp add: main_def Let_def get_mode_def set_mode_def)
    have get: "fst (main s args w) = Done
        \<and> get_calls (trace (snd (main s args w))) = get_calls (trace w) @ map Path ?xs
        \<and> put_calls (trace (snd (main s args w))) = put_calls (trace w)
        \<and> filter is_output (trace (snd (main s args w)))
            = filter is_output (trace w) @ [Stdout (doc @ ''\<newline>'')]
        \<and> stdin (snd (main s args w)) = stdin w"
      if m: "flag_mode f = ''get''" and out: "flag_output f = []"
        and fetched: "fetch_seq s (map Path ?xs) (ext w3) = (map Inr vs, x)"
        and doc: "Marshal s \<lparr>Options = map2 option_of ?xs vs\<rparr> = Inr doc"
    proof -
      from get_loop_fetched [OF fetched, of "\<lparr>Options = []\<rparr>"] obtain w4 where
        run: "getBeanstalkOptions s ps w3 = ((\<lparr>Options = map2 option_of ?xs vs\<rparr>, None), w4)"
        and tr: "stdin w4 = stdin w3" "get_calls (trace w4) = get_calls (trace w3) @ map Path ?xs"
          "put_calls (trace w4) = put_calls (trace w3)"
          "filter is_output (trace w4) = filter is_output (trace w3)"
        unfolding getBeanstalkOptions_concat by auto
      from eq m out run doc
      have "main s args w = (Done, emit (Stdout (doc @ ''\<newline>'')) w4)"
        by simp
      with tr w3 show ?thesis
        by (simp add: get_calls_def put_calls_def)
    qed
    have set: "(\<exists>vs. length vs \<le> length (Component ps)
                    \<and> (fst (main s args w) = Done \<longrightarrow> length vs = length (Component ps))
                    \<and> put_calls (trace (snd (main s args w)))
                        = put_calls (trace w) @ map2 request (Component ps) vs)
              \<and> get_calls (trace (snd (main s args w))) = get_calls (trace w)"
      if m: "flag_mode f = ''set''"
    proof -
      obtain r w4 where run: "setBeanstalkOptions s ps w3 = (r, w4)"
        by (cases "setBeanstalkOptions s ps w3")
      then have "set_loop s (Component ps) w3 = (r, w4)"
        by (simp add: setBeanstalkOptions_def)
      from set_loop_calls [OF this] obtain vs where
        vs: "length vs \<le> length (Component ps)" "r = None \<longrightarrow> length vs = length (Component ps)"
          "put_calls (trace w4) = put_calls (trace w3) @ map2 request (Component ps) vs"
          "get_calls (trace w4) = get_calls (trace w3)"
        by blast
      from eq m run have res: "snd (main s args w) = w4" "fst (main s args w) = Done \<longleftrightarrow> r = None"
        by (auto split: option.splits)
      from vs res w3 show ?thesis
        by (intro conjI exI [of _ vs]) simp_all
    qed
    note eq get set
  }
  with default given invalid show ?thesis
    by blast
qed

theorem main_mode_dispatch_witness:
  "flag_Parse [(''i'', ''template.yaml''), (''m'', ''put'')] default_flags
     = Some \<lparr>flag_input = ''template.yaml'', flag_output = [], flag_environment = [], flag_mode = ''put''\<rparr>
   \<and> main fake_sys [(''i'', ''template.yaml''), (''m'', ''put'')] (fake_world [] [])
     = (Fatal ''Invalid mode: put'',
        banner \<lparr>flag_input = ''template.yaml'', flag_output = [], flag_environment = [], flag_mode = ''put''\<rparr>
          (fake_world [] []))
   \<and> flag_Parse [(''i'', ''template.yaml'')] default_flags
     = Some \<lparr>flag_input = ''template.yaml'', flag_output = [], flag_environment = [], flag_mode = ''get''\<rparr>
   \<and> fst (main fake_sys [(''i'', ''template.yaml'')]
         (fake_world [(''/db/host'', ''localhost''), (''/db/user'', ''u''), (''/api/key'', ''k'')] [])) = Done
   \<and> get_calls (trace (snd (main fake_sys [(''i'', ''template.yaml'')]
         (fake_world [(''/db/host'', ''localhost''), (''/db/user'', ''u''), (''/api/key'', ''k'')] []))))
       = [''/db/host'', ''/db/user'', ''/api/key'']
   \<and> put_calls (trace (snd (main fake_sys [(''i'', ''template.yaml'')]
         (fake_world [(''/db/host'', ''localhost''), (''/db/user'', ''u''), (''/api/key'', ''k'')] []))))
       = []
   \<and> filter is_output (trace (snd (main fake_sys [(''i'', ''template.yaml'')]
         (fake_world [(''/db/host'', ''localhost''), (''/db/user'', ''u''), (''/api/key'', ''k'')] []))))
       = [Stdout ''DB_HOST=localhost;DB_USER=u;API_KEY=k;\<newline>'']
   \<and> flag_Parse [(''i'', ''template.yaml''), (''mode'', ''set'')] default_flags
     = Some \<lparr>flag_input = ''template.yaml'', flag_output = [], flag_environment = [], flag_mode = ''set''\<rparr>
   \<and> fst (main fake_sys [(''i'', ''template.yaml''), (''mode'', ''set'')]
         (fake_world [] ['' a'', ''b c \<newline>more'', ''x''])) = Done
   \<and> put_calls (trace (snd (main fake_sys [(''i'', ''template.yaml''), (''mode'', ''set'')]
         (fake_world [] ['' a'', ''b c \<newline>more'', ''x'']))))
       = [\<lparr>put_Name = ''/db/host'', put_Description = ''host'', put_Value = ''abc'',
           put_Overwrite = True, put_Type = ''String''\<rparr>,
          \<lparr>put_Name = ''/db/user'', put_Description = ''user'', put_Value = '' ab c '',
           put_Overwrite = True, put_Type = ''String''\<rparr>]
   \<and> get_calls (trace (snd (main fake_sys [(''i'', ''template.yaml''), (''mode'', ''set'')]
         (fake_world [] ['' a'', ''b c \<newline>more'', ''x''])))) = []"
proof -
  let ?f = "\<lambda>m. \<lparr>flag_input = ''template.yaml'', flag_output = [], flag_environment = [], flag_mode = m\<rparr>"
  let ?store = "[(''/db/host'', ''localhost''), (''/db/user'', ''u''), (''/api/key'', ''k'')]"
  let ?chunks = "['' a'', ''b c \<newline>more'', ''x'']"
  have rd: "flag_input (?f m) \<noteq> []
      \<and> readParametersFile fake_sys (flag_input (?f m)) (flag_environment (?f m))
            (banner (?f m) (fake_world x chunks))
          = ((fake_parameters, None), banner (?f m) (fake_world x chunks))
      \<and> call (NewSession fake_sys) (banner (?f m) (fake_world x chunks))
          = (None, banner (?f m) (fake_world x chunks))" for m x chunks
    by (simp add: fake_defs readParametersFile_def call_def)
  have p1: "flag_Parse [(''i'', ''template.yaml''), (''m'', ''put'')] default_flags = Some (?f ''put'')"
    by (simp add: default_flags_def)
  have p2: "flag_Parse [(''i'', ''template.yaml'')] default_flags = Some (?f ''get'')"
    by (simp add: default_flags_def)
  have p3: "flag_Parse [(''i'', ''template.yaml''), (''mode'', ''set'')] default_flags = Some (?f ''set'')"
    by (simp add: default_flags_def)
  note t1 = main_mode_dispatch [OF p1, of fake_sys "fake_world [] []" fake_parameters
      "banner (?f ''put'') (fake_world [] [])" "banner (?f ''put'') (fake_world [] [])"]
  from t1 [THEN conjunct2, THEN conjunct2, THEN conjunct1, THEN mp, OF rd, THEN conjunct1]
  have a: "main fake_sys [(''i'', ''template.yaml''), (''m'', ''put'')] (fake_world [] [])
     = (Fatal ''Invalid mode: put'', banner (?f ''put'') (fake_world [] []))"
    by simp
  have m2: "flag_mode (?f ''get'') = ''get''" and out: "flag_output (?f ''get'') = []"
    by simp_all
  have fetched: "fetch_seq fake_sys (map Path (Component fake_parameters @ External fake_parameters))
      (ext (banner (?f ''get'') (fake_world ?store []))) = (map Inr [''localhost'', ''u'', ''k''], ?store)"
    by (simp add: fake_defs ext_banner)
  have doc: "Marshal fake_sys
      \<lparr>Options = map2 option_of (Component fake_parameters @ External fake_parameters) [''localhost'', ''u'', ''k'']\<rparr>
      = Inr ''DB_HOST=localhost;DB_USER=u;API_KEY=k;''"
    by (simp add: fake_defs option_of_def)
  note t2 = main_mode_dispatch [OF p2, of fake_sys "fake_world ?store []" fake_parameters
      "banner (?f ''get'') (fake_world ?store [])" "banner (?f ''get'') (fake_world ?store [])"
      "[''localhost'', ''u'', ''k'']" ?store "''DB_HOST=localhost;DB_USER=u;API_KEY=k;''"]
  from t2 [THEN conjunct2, THEN conjunct2, THEN conjunct1, THEN mp, OF rd,
      THEN conjunct2, THEN conjunct1, THEN mp, OF conjI [OF m2 conjI [OF out conjI [OF fetched doc]]]]
  have b: "fst (main fake_sys [(''i'', ''template.yaml'')] (fake_world ?store [])) = Done"
    "get_calls (trace (snd (main fake_sys [(''i'', ''template.yaml'')] (fake_world ?store []))))
       = [''/db/host'', ''/db/user'', ''/api/key'']"
    "put_calls (trace (snd (main fake_sys [(''i'', ''template.yaml'')] (fake_world ?store [])))) = []"
    "filter is_output (trace (snd (main fake_sys [(''i'', ''template.yaml'')] (fake_world ?store []))))
       = [Stdout ''DB_HOST=localhost;DB_USER=u;API_KEY=k;\<newline>'']"
    by (simp_all add: fake_parameters_def fake_world_def get_calls_def put_calls_def)
  note t3 = main_mode_dispatch [OF p3, of fake_sys "fake_world [] ?chunks" fake_parameters
      "banner (?f ''set'') (fake_world [] ?chunks)" "banner (?f ''set'') (fake_world [] ?chunks)"]
  from t3 [THEN conjunct2, THEN conjunct2, THEN conjunct1, THEN mp, OF rd, THEN conjunct1]
  have "main fake_sys [(''i'', ''template.yaml''), (''mode'', ''set'')] (fake_world [] ?chunks)
     = (case setBeanstalkOptions fake_sys fake_parameters (banner (?f ''set'') (fake_world [] ?chunks)) of
          (Some err, w4) \<Rightarrow> (Fatal (''Error setting values: '' @ message err), w4)
        | (None, w4) \<Rightarrow> (Done, w4))"
    by simp
  then have c: "fst (main fake_sys [(''i'', ''template.yaml''), (''mode'', ''set'')] (fake_world [] ?chunks)) = Done"
    "put_calls (trace (snd (main fake_sys [(''i'', ''template.yaml''), (''mode'', ''set'')] (fake_world [] ?chunks))))
       = [\<lparr>put_Name = ''/db/host'', put_Description = ''host'', put_Value = ''abc'',
           put_Overwrite = True, put_Type = ''String''\<rparr>,
          \<lparr>put_Name = ''/db/user'', put_Description = ''user'', put_Value = '' ab c '',
           put_Overwrite = True, put_Type = ''String''\<rparr>]"
    "get_calls (trace (snd (main fake_sys [(''i'', ''template.yaml''), (''mode'', ''set'')] (fake_world [] ?chunks)))) = []"
    by (simp_all add: fake_defs run_defs banner_def)
  show ?thesis
    by (intro conjI) (rule p1 a p2 b p3 c)+
qed

end
